theory Spec2Isabelle
  imports Main "HOL-Library.Char_ord" "HOL-Library.List_Lexorder" "HOL-Library.Multiset"
begin

section \<open>The API-server extractor stage\<close>

text \<open>
  A shallow embedding of the extractor that posts a preview image of every media entry
  to the API server and stores the JSON answer beside the entry. The closure variable
  \<open>currentErrors\<close>, the log, the HTTP requests issued and the entry files written are
  threaded through the functions as an explicit state. The collaborators (the storage,
  the HTTP client \<open>request\<close>) answer through callbacks in the source; here each is a
  function returning the arguments its callback receives, an error as \<open>Inl\<close>/\<open>Some\<close>.
\<close>

subsection \<open>Data\<close>

type_synonym suffix = string
type_synonym buffer = "nat list"

datatype js_error = TypeError | Failed string

record entry =
  entry_id :: string
  type :: string

record storage =
  hasEntryFile :: "entry \<Rightarrow> suffix \<Rightarrow> bool"
  readEntryFile :: "entry \<Rightarrow> suffix option \<Rightarrow> js_error + buffer"
  writeEntryFile :: "entry \<Rightarrow> suffix \<Rightarrow> buffer \<Rightarrow> js_error option"

text \<open>The second argument of \<open>apiServerEntry\<close>, destructured in its parameter list.\<close>

record params =
  name :: string
  apiServerUrl :: "string option"
  apiPath :: string
  imagePreviewSuffixes :: "suffix list"
  entrySuffix :: suffix
  concurrent :: int
  timeout :: int

text \<open>The options object handed to \<open>request\<close>, and what it calls back with on success:
  the status code of the response and the body.\<close>

record options =
  req_url :: string
  req_method :: string
  req_headers :: "(string \<times> string) list"
  req_body :: buffer
  req_timeout :: int

record response =
  statusCode :: int
  res_body :: buffer

datatype level = TRACE | DEBUG | INFO | WARN | ERROR

datatype message =
    TooManyErrors string
  | CouldNotRead "suffix option" entry js_error string
  | CouldNotGet string entry string js_error
  | BadResponseCode string entry string int
  | CouldNotWrite string entry js_error
  | Fetched string entry
  | PublicApiServerHint string
  | UseApiServer "string option"
  | UseApiServerWith int int
  | Disable string

record run_state =
  currentErrors :: int
  logged :: "(level \<times> message) list"
  requested :: "options list"
  written :: "(entry \<times> suffix \<times> buffer) list"

definition ERROR_THRESHOLD :: int where
  "ERROR_THRESHOLD = 5"

definition PUBLIC_API_SERVER :: string where
  "PUBLIC_API_SERVER = ''https://api.home-gallery.org''"

text \<open>The state right after \<open>apiServerEntry\<close> ran \<open>let currentErrors = 0\<close>.\<close>

definition initial :: run_state where
  "initial = \<lparr>currentErrors = 0, logged = [], requested = [], written = []\<rparr>"

definition log :: "level \<Rightarrow> message \<Rightarrow> run_state \<Rightarrow> run_state" where
  "log l m s = s\<lparr>logged := logged s @ [(l, m)]\<rparr>"

subsection \<open>The task predicate and the error counter\<close>

text \<open>\<open>suffixes.find(suffix => storage.hasEntryFile(entry, suffix))\<close>: the first suffix
  in the configured order that the storage has, \<open>undefined\<close> (\<open>None\<close>) when there is none.\<close>

definition getEntryFileBySuffixes :: "storage \<Rightarrow> entry \<Rightarrow> suffix list \<Rightarrow> suffix option" where
  "getEntryFileBySuffixes storage entry suffixes =
     find (\<lambda>suffix. hasEntryFile storage entry suffix) suffixes"

text \<open>JavaScript's \<open>!v\<close> on the value \<open>find\<close> returned: \<open>undefined\<close> is falsy, and so is
  the empty string.\<close>

definition js_not :: "suffix option \<Rightarrow> bool" where
  "js_not v = (case v of None \<Rightarrow> True | Some str \<Rightarrow> str = [])"

definition test :: "storage \<Rightarrow> params \<Rightarrow> run_state \<Rightarrow> entry \<Rightarrow> bool" where
  "test storage p s entry =
     (if currentErrors s > ERROR_THRESHOLD then False
      else if js_not (getEntryFileBySuffixes storage entry (imagePreviewSuffixes p))
              \<or> hasEntryFile storage entry (entrySuffix p) then False
      else if type entry = ''image'' \<or> type entry = ''rawImage'' then True
      else False)"

definition addError :: "params \<Rightarrow> run_state \<Rightarrow> run_state" where
  "addError p s =
     (let s1 = s\<lparr>currentErrors := currentErrors s + 1\<rparr>
      in if currentErrors s1 > ERROR_THRESHOLD
         then log WARN (TooManyErrors (name p)) s1
         else s1)"

text \<open>The success branch of the write callback:
  \<open>if (currentErrors > 0) { currentErrors-- }\<close>. The source has it inline; the
  specification calls it \<open>recordSuccess\<close>.\<close>

definition recordSuccess :: "run_state \<Rightarrow> run_state" where
  "recordSuccess s =
     (if currentErrors s > 0 then s\<lparr>currentErrors := currentErrors s - 1\<rparr> else s)"

subsection \<open>The enrichment task\<close>

text \<open>A template literal prints an undefined value as the word \<open>undefined\<close>.\<close>

definition template :: "string option \<Rightarrow> string" where
  "template v = (case v of None \<Rightarrow> ''undefined'' | Some str \<Rightarrow> str)"

text \<open>The url and the options object, which \<open>task\<close> builds inline.\<close>

definition api_url :: "params \<Rightarrow> string" where
  "api_url p = template (apiServerUrl p) @ apiPath p"

definition request_options :: "params \<Rightarrow> buffer \<Rightarrow> options" where
  "request_options p buffer =
     \<lparr>req_url = api_url p, req_method = ''POST'',
      req_headers = [(''Content-Type'', ''image/jpeg'')],
      req_body = buffer, req_timeout = timeout p * 1000\<rparr>"

text \<open>
  \<open>task (entry, cb)\<close>. The result is the list of calls of \<open>cb\<close>, each with the error
  argument it got (\<open>cb()\<close> is \<open>None\<close>), and the state afterwards. A request is recorded
  in \<open>requested\<close> when it is issued, an entry file in \<open>written\<close> when its write
  succeeded.
\<close>

definition task ::
  "storage \<Rightarrow> (options \<Rightarrow> js_error + response) \<Rightarrow> params \<Rightarrow> entry \<Rightarrow> run_state
     \<Rightarrow> js_error option list \<times> run_state" where
  "task storage request p entry s =
     (let imagePreviewSuffix = getEntryFileBySuffixes storage entry (imagePreviewSuffixes p)
      in case readEntryFile storage entry imagePreviewSuffix of
           Inl err \<Rightarrow>
             ([None], log WARN (CouldNotRead imagePreviewSuffix entry err (name p)) s)
         | Inr buffer \<Rightarrow>
             (let url = api_url p;
                  options = request_options p buffer;
                  s1 = s\<lparr>requested := requested s @ [options]\<rparr>
              in case request options of
                   Inl err \<Rightarrow>
                     ([None], log WARN (CouldNotGet (name p) entry url err) (addError p s1))
                 | Inr res \<Rightarrow>
                     if statusCode res < 100 \<or> statusCode res \<ge> 300
                     then ([None],
                           log ERROR (BadResponseCode (name p) entry url (statusCode res))
                             (addError p s1))
                     else (case writeEntryFile storage entry (entrySuffix p) (res_body res) of
                             Some err \<Rightarrow>
                               ([None], log WARN (CouldNotWrite (name p) entry err) s1)
                           | None \<Rightarrow>
                               ([None],
                                log DEBUG (Fetched (name p) entry)
                                  (recordSuccess
                                     (s1\<lparr>written := written s1 @
                                         [(entry, entrySuffix p, res_body res)]\<rparr>))))))"

text \<open>
  What the task did, read off the answers of the collaborators alone: the remote call
  failed (no answer, or a status outside \<open>[100, 300)\<close>), the response body was written
  under the output suffix, the local read failed, the local write failed.
\<close>

definition remote_call_failed ::
  "storage \<Rightarrow> (options \<Rightarrow> js_error + response) \<Rightarrow> params \<Rightarrow> entry \<Rightarrow> bool" where
  "remote_call_failed storage request p entry =
     (case readEntryFile storage entry
             (getEntryFileBySuffixes storage entry (imagePreviewSuffixes p)) of
        Inl err \<Rightarrow> False
      | Inr buffer \<Rightarrow>
          (case request (request_options p buffer) of
             Inl err \<Rightarrow> True
           | Inr res \<Rightarrow> statusCode res < 100 \<or> statusCode res \<ge> 300))"

definition body_written ::
  "storage \<Rightarrow> (options \<Rightarrow> js_error + response) \<Rightarrow> params \<Rightarrow> entry \<Rightarrow> bool" where
  "body_written storage request p entry =
     (case readEntryFile storage entry
             (getEntryFileBySuffixes storage entry (imagePreviewSuffixes p)) of
        Inl err \<Rightarrow> False
      | Inr buffer \<Rightarrow>
          (case request (request_options p buffer) of
             Inl err \<Rightarrow> False
           | Inr res \<Rightarrow>
               100 \<le> statusCode res \<and> statusCode res < 300
               \<and> writeEntryFile storage entry (entrySuffix p) (res_body res) = None))"

definition read_failed :: "storage \<Rightarrow> params \<Rightarrow> entry \<Rightarrow> bool" where
  "read_failed storage p entry =
     (case readEntryFile storage entry
             (getEntryFileBySuffixes storage entry (imagePreviewSuffixes p)) of
        Inl err \<Rightarrow> True
      | Inr buffer \<Rightarrow> False)"

definition write_failed ::
  "storage \<Rightarrow> (options \<Rightarrow> js_error + response) \<Rightarrow> params \<Rightarrow> entry \<Rightarrow> bool" where
  "write_failed storage request p entry =
     (case readEntryFile storage entry
             (getEntryFileBySuffixes storage entry (imagePreviewSuffixes p)) of
        Inl err \<Rightarrow> False
      | Inr buffer \<Rightarrow>
          (case request (request_options p buffer) of
             Inl err \<Rightarrow> False
           | Inr res \<Rightarrow>
               100 \<le> statusCode res \<and> statusCode res < 300
               \<and> writeEntryFile storage entry (entrySuffix p) (res_body res) \<noteq> None))"

text \<open>A run of the error counter: failures recorded by \<open>addError\<close>, successes by the
  decrement of the write callback, in any order.\<close>

datatype budget_op = Failure | Success

fun apply_op :: "params \<Rightarrow> budget_op \<Rightarrow> run_state \<Rightarrow> run_state" where
  "apply_op p Failure s = addError p s"
| "apply_op p Success s = recordSuccess s"

fun run_ops :: "params \<Rightarrow> budget_op list \<Rightarrow> run_state \<Rightarrow> run_state" where
  "run_ops p [] s = s"
| "run_ops p (op # ops) s = run_ops p ops (apply_op p op s)"

subsection \<open>Stages\<close>

text \<open>
  A stage of the extractor stream takes the entries that arrive and the state, and gives
  the entries it emits and the state afterwards.
\<close>

type_synonym stage = "entry list \<Rightarrow> run_state \<Rightarrow> entry list \<times> run_state"

type_synonym handler =
  "entry \<Rightarrow> run_state \<Rightarrow> (js_error option \<times> entry option) \<times> run_state"

type_synonym entry_task = "entry \<Rightarrow> run_state \<Rightarrow> js_error option list \<times> run_state"

text \<open>
  Modelled from the spec: \<open>through\<close> of the package \<open>@home-gallery/stream\<close>, which is
  not among the source files. The stage hands each entry to the handler, which answers
  \<open>cb(err, data)\<close>; the stage emits the data, and an error ends the stream.
\<close>

fun through :: "handler \<Rightarrow> stage" where
  "through h [] s = ([], s)"
| "through h (entry # entries) s =
     (case h entry s of
        ((Some err, out), s1) \<Rightarrow> ([], s1)
      | ((None, out), s1) \<Rightarrow>
          (case through h entries s1 of
             (rest, s2) \<Rightarrow> ((case out of None \<Rightarrow> [] | Some e \<Rightarrow> [e]) @ rest, s2)))"

text \<open>
  Modelled from the spec: \<open>conditionalTask\<close> of \<open>stream/task.js\<close>, which is not among
  the source files. An entry the predicate rejects completes at once, with no task run.
\<close>

definition conditionalTask ::
  "(entry \<Rightarrow> run_state \<Rightarrow> bool) \<Rightarrow> entry_task \<Rightarrow> entry_task" where
  "conditionalTask tst tsk entry s = (if tst entry s then tsk entry s else ([None], s))"

text \<open>
  \<open>parallel\<close> of the package \<open>@home-gallery/stream\<close> is not among the source files.
  It is a parameter of \<open>apiServerEntry\<close>: the dispatcher that is given the gated task
  and the limit of tasks in flight, and returns the stage.
\<close>

definition apiServerEntry ::
  "(entry_task \<Rightarrow> int \<Rightarrow> stage) \<Rightarrow> storage \<Rightarrow> (options \<Rightarrow> js_error + response) \<Rightarrow> params
     \<Rightarrow> stage" where
  "apiServerEntry parallel storage request p =
     parallel (conditionalTask (\<lambda>entry s. test storage p s entry) (task storage request p))
       (concurrent p)"

definition noop :: stage where
  "noop = through (\<lambda>entry s. ((None, Some entry), s))"

subsection \<open>Configuration and the feature adapters\<close>

text \<open>
  The \<open>disable\<close> setting of the configuration: absent, one feature name, or a list of
  feature names.
\<close>

datatype disable_setting = DisableAbsent | DisableOne string | DisableMany "string list"

record api_server_block =
  url :: "string option"
  cfg_timeout :: int
  cfg_concurrent :: int
  disable :: disable_setting

record extractor_block =
  apiServer :: "api_server_block option"

record config =
  extractor :: "extractor_block option"

record common =
  imagePreviewSizes :: "int list"

text \<open>\<open>config?.extractor?.apiServer\<close>, where \<open>config\<close> itself may be undefined.\<close>

definition config_apiServer :: "config option \<Rightarrow> api_server_block option" where
  "config_apiServer cfg =
     (case cfg of
        None \<Rightarrow> None
      | Some c \<Rightarrow> (case extractor c of None \<Rightarrow> None | Some e \<Rightarrow> apiServer e))"

definition startsWith :: "string \<Rightarrow> string \<Rightarrow> bool" where
  "startsWith str pre = (take (length pre) str = pre)"

text \<open>Destructuring \<open>undefined\<close> throws a \<open>TypeError\<close>; the log lines are returned
  beside the stage.\<close>

definition logPublicApiPrivacyHint ::
  "config option \<Rightarrow> (js_error + stage) \<times> (level \<times> message) list" where
  "logPublicApiPrivacyHint cfg =
     (case config_apiServer cfg of
        None \<Rightarrow> (Inl TypeError, [])
      | Some a \<Rightarrow>
          (Inr noop,
           [case url a of
              None \<Rightarrow> (DEBUG, UseApiServer None)
            | Some u \<Rightarrow>
                if startsWith u PUBLIC_API_SERVER then (WARN, PublicApiServerHint u)
                else (DEBUG, UseApiServer (Some u)),
            (TRACE, UseApiServerWith (cfg_concurrent a) (cfg_timeout a))]))"

definition apiServerPreviewSizeFilter :: "int \<Rightarrow> bool" where
  "apiServerPreviewSizeFilter sz = (sz \<le> 800)"

text \<open>
  \<open>config?.extractor?.apiServer?.disable || []\<close>: an absent setting and the empty string
  are falsy and give the empty list. A list is searched with \<open>includes\<close>, a string is
  compared with \<open>==\<close>.
\<close>

definition isDisabled :: "config option \<Rightarrow> string \<Rightarrow> bool" where
  "isDisabled cfg feature =
     (let setting = (case config_apiServer cfg of None \<Rightarrow> DisableAbsent | Some a \<Rightarrow> disable a);
          dis = (case setting of
                   DisableAbsent \<Rightarrow> DisableMany []
                 | DisableOne str \<Rightarrow> if str = [] then DisableMany [] else DisableOne str
                 | DisableMany fs \<Rightarrow> DisableMany fs)
      in case dis of
           DisableMany fs \<Rightarrow> feature \<in> set fs
         | DisableOne str \<Rightarrow> str = feature
         | DisableAbsent \<Rightarrow> False)"

text \<open>
  The three adapters. \<open>sizeToImagePreviewSuffix\<close> of \<open>image-preview.js\<close> is not among
  the source files and is a parameter, as are the HTTP client and \<open>parallel\<close>. Reading
  \<open>config.extractor.apiServer\<close> and then \<open>apiServer.url\<close> throws a \<open>TypeError\<close> when
  the block is missing.
\<close>

definition similarEmbeddings ::
  "(entry_task \<Rightarrow> int \<Rightarrow> stage) \<Rightarrow> (options \<Rightarrow> js_error + response) \<Rightarrow> (int \<Rightarrow> suffix) \<Rightarrow> storage \<Rightarrow> common \<Rightarrow> config option
     \<Rightarrow> (js_error + stage) \<times> (level \<times> message) list" where
  "similarEmbeddings parallel request sizeToImagePreviewSuffix storage cmn cfg =
     (if isDisabled cfg ''similarDetection''
      then (Inr noop, [(INFO, Disable ''similar detection'')])
      else (case config_apiServer cfg of
              None \<Rightarrow> (Inl TypeError, [])
            | Some a \<Rightarrow>
                (Inr (apiServerEntry parallel storage request
                   \<lparr>name = ''similarity embeddings'',
                    apiServerUrl = url a,
                    apiPath = ''/embeddings'',
                    imagePreviewSuffixes =
                      map sizeToImagePreviewSuffix
                        (filter apiServerPreviewSizeFilter (imagePreviewSizes cmn)),
                    entrySuffix = ''similarity-embeddings.json'',
                    concurrent = cfg_concurrent a,
                    timeout = cfg_timeout a\<rparr>), [])))"

definition objectDetection ::
  "(entry_task \<Rightarrow> int \<Rightarrow> stage) \<Rightarrow> (options \<Rightarrow> js_error + response) \<Rightarrow> (int \<Rightarrow> suffix) \<Rightarrow> storage \<Rightarrow> common \<Rightarrow> config option
     \<Rightarrow> (js_error + stage) \<times> (level \<times> message) list" where
  "objectDetection parallel request sizeToImagePreviewSuffix storage cmn cfg =
     (if isDisabled cfg ''objectDetection''
      then (Inr noop, [(INFO, Disable ''object detection'')])
      else (case config_apiServer cfg of
              None \<Rightarrow> (Inl TypeError, [])
            | Some a \<Rightarrow>
                (Inr (apiServerEntry parallel storage request
                   \<lparr>name = ''object detection'',
                    apiServerUrl = url a,
                    apiPath = ''/objects'',
                    imagePreviewSuffixes =
                      map sizeToImagePreviewSuffix
                        (filter apiServerPreviewSizeFilter (imagePreviewSizes cmn)),
                    entrySuffix = ''objects.json'',
                    concurrent = cfg_concurrent a,
                    timeout = cfg_timeout a\<rparr>), [])))"

definition faceDetection ::
  "(entry_task \<Rightarrow> int \<Rightarrow> stage) \<Rightarrow> (options \<Rightarrow> js_error + response) \<Rightarrow> (int \<Rightarrow> suffix) \<Rightarrow> storage \<Rightarrow> common \<Rightarrow> config option
     \<Rightarrow> (js_error + stage) \<times> (level \<times> message) list" where
  "faceDetection parallel request sizeToImagePreviewSuffix storage cmn cfg =
     (if isDisabled cfg ''faceDetection''
      then (Inr noop, [(INFO, Disable ''face detection'')])
      else (case config_apiServer cfg of
              None \<Rightarrow> (Inl TypeError, [])
            | Some a \<Rightarrow>
                (Inr (apiServerEntry parallel storage request
                   \<lparr>name = ''face detection'',
                    apiServerUrl = url a,
                    apiPath = ''/faces'',
                    imagePreviewSuffixes =
                      map sizeToImagePreviewSuffix
                        (filter apiServerPreviewSizeFilter (imagePreviewSizes cmn)),
                    entrySuffix = ''faces.json'',
                    concurrent = cfg_concurrent a,
                    timeout = cfg_timeout a\<rparr>), [])))"

text \<open>The configuration names a feature in its \<open>disable\<close> setting: as the single string
  value, or as a member of the list.\<close>

definition names_feature :: "config option \<Rightarrow> string \<Rightarrow> bool" where
  "names_feature cfg feature =
     (case config_apiServer cfg of
        None \<Rightarrow> False
      | Some a \<Rightarrow>
          (case disable a of
             DisableAbsent \<Rightarrow> False
           | DisableOne str \<Rightarrow> str = feature
           | DisableMany fs \<Rightarrow> feature \<in> set fs))"

section \<open>The index writer\<close>

text \<open>
  \<open>writeIndex\<close> sorts the array it is given with \<open>Array.prototype.sort\<close>, which works
  in place and returns the array it was called on. Arrays therefore live in a store,
  and the index holds a reference.
\<close>

text \<open>
  Modelled from the spec: the entries of the file index, as far as their order needs
  them: a directory and a file name.
\<close>

record index_entry =
  entry_dir :: string
  entry_file :: string

text \<open>
  Modelled from the spec: the comparator \<open>byDirDescFileAsc\<close> of \<open>utils.js\<close>, which is
  not among the source files. It is written from the words "sorted by directory
  descending, then file ascending", with the strings compared as JavaScript's \<open><\<close>
  compares them, and answers negative, zero or positive as a comparator does.
\<close>

definition byDirDescFileAsc :: "index_entry \<Rightarrow> index_entry \<Rightarrow> int" where
  "byDirDescFileAsc a b =
     (if entry_dir b < entry_dir a then - 1
      else if entry_dir a < entry_dir b then 1
      else if entry_file a < entry_file b then - 1
      else if entry_file b < entry_file a then 1
      else 0)"

text \<open>The order the specification names: directory descending, then file ascending.\<close>

definition dir_desc_file_asc :: "index_entry \<Rightarrow> index_entry \<Rightarrow> bool" where
  "dir_desc_file_asc a b =
     (entry_dir b < entry_dir a \<or> (entry_dir a = entry_dir b \<and> entry_file a \<le> entry_file b))"

text \<open>
  \<open>Array.prototype.sort\<close> with a comparator. For a consistent comparator the language
  fixes the result: the stable sorted arrangement, which insertion from the right
  computes (an element goes in front of the elements it does not compare greater than).
\<close>

fun insert_by :: "('a \<Rightarrow> 'a \<Rightarrow> int) \<Rightarrow> 'a \<Rightarrow> 'a list \<Rightarrow> 'a list" where
  "insert_by cmp x [] = [x]"
| "insert_by cmp x (y # ys) = (if cmp x y \<le> 0 then x # y # ys else y # insert_by cmp x ys)"

definition js_sort :: "('a \<Rightarrow> 'a \<Rightarrow> int) \<Rightarrow> 'a list \<Rightarrow> 'a list" where
  "js_sort cmp xs = foldr (insert_by cmp) xs []"

type_synonym ref = nat
type_synonym heap = "ref \<Rightarrow> index_entry list"

definition array_sort ::
  "heap \<Rightarrow> ref \<Rightarrow> (index_entry \<Rightarrow> index_entry \<Rightarrow> int) \<Rightarrow> heap \<times> ref" where
  "array_sort h r cmp = (h(r := js_sort cmp (h r)), r)"

record index =
  index_type :: string
  created :: string
  base :: string
  data :: ref

record write_options =
  dryRun :: bool

text \<open>
  What \<open>writeIndex\<close> takes from its platform: \<open>path.resolve\<close>, the clock behind
  \<open>new Date().toISOString()\<close>, and \<open>writeJsonGzip\<close> of the package
  \<open>@home-gallery/common\<close>, which gets the file name, the index and the contents of
  its data array, and answers with the error of its callback.
\<close>

record platform =
  resolve :: "string \<Rightarrow> string"
  now :: string
  writeJsonGzip :: "string \<Rightarrow> index \<Rightarrow> index_entry list \<Rightarrow> js_error option"

text \<open>The promise \<open>writeIndex\<close> returns, the store afterwards, and the files written
  (each with the index and the array contents serialised into it).\<close>

record write_outcome =
  returned :: "js_error + index"
  heap_after :: heap
  files_written :: "(string \<times> index \<times> index_entry list) list"

definition writeIndex ::
  "platform \<Rightarrow> heap \<Rightarrow> string \<Rightarrow> string \<Rightarrow> ref \<Rightarrow> write_options \<Rightarrow> write_outcome" where
  "writeIndex pf h directory filename entries options =
     (case array_sort h entries byDirDescFileAsc of
        (h1, sorted_entries) \<Rightarrow>
          (let index = \<lparr>index_type = ''home-gallery/fileindex@1.0'',
                        created = now pf,
                        base = resolve pf directory,
                        data = sorted_entries\<rparr>
           in if dryRun options
              then \<lparr>returned = Inr index, heap_after = h1, files_written = []\<rparr>
              else (case writeJsonGzip pf filename index (h1 (data index)) of
                      None \<Rightarrow>
                        \<lparr>returned = Inr index, heap_after = h1,
                         files_written = [(filename, index, h1 (data index))]\<rparr>
                    | Some err \<Rightarrow>
                        \<lparr>returned = Inl err, heap_after = h1, files_written = []\<rparr>)))"

section \<open>Example values\<close>

text \<open>Concrete collaborators and inputs, at which the theorems below are instantiated.\<close>

definition example_storage :: storage where
  "example_storage =
     \<lparr>hasEntryFile = (\<lambda>entry suffix. suffix = ''image-preview-320.jpg''),
      readEntryFile = (\<lambda>entry suffix. Inr [255, 216]),
      writeEntryFile = (\<lambda>entry suffix body. None)\<rparr>"

definition example_params :: params where
  "example_params =
     \<lparr>name = ''object detection'', apiServerUrl = Some ''http://localhost:3000'',
      apiPath = ''/objects'',
      imagePreviewSuffixes = [''image-preview-800.jpg'', ''image-preview-320.jpg''],
      entrySuffix = ''objects.json'', concurrent = 5, timeout = 30\<rparr>"

definition example_entry :: entry where
  "example_entry = \<lparr>entry_id = ''96419bb0'', type = ''image''\<rparr>"

definition example_request :: "int \<Rightarrow> options \<Rightarrow> js_error + response" where
  "example_request status opts = Inr \<lparr>statusCode = status, res_body = [123, 125]\<rparr>"

definition example_config :: "disable_setting \<Rightarrow> config option" where
  "example_config setting =
     Some \<lparr>extractor = Some \<lparr>apiServer = Some
       \<lparr>url = Some ''https://api.home-gallery.org'', cfg_timeout = 30, cfg_concurrent = 5,
        disable = setting\<rparr>\<rparr>\<rparr>"

definition example_config_without_block :: "config option" where
  "example_config_without_block = Some \<lparr>extractor = Some \<lparr>apiServer = None\<rparr>\<rparr>"

definition example_common :: common where
  "example_common = \<lparr>imagePreviewSizes = [1920, 800, 320]\<rparr>"

definition example_suffix :: "int \<Rightarrow> suffix" where
  "example_suffix sz =
     (if sz = 800 then ''image-preview-800.jpg'' else ''image-preview-320.jpg'')"

definition example_platform :: platform where
  "example_platform =
     \<lparr>resolve = (\<lambda>directory. ''/data/'' @ directory),
      now = ''2024-05-01T10:00:00.000Z'',
      writeJsonGzip = (\<lambda>filename index entries. None)\<rparr>"

definition example_heap :: heap where
  "example_heap r =
     (if r = 0
      then [\<lparr>entry_dir = ''2019'', entry_file = ''b.jpg''\<rparr>,
            \<lparr>entry_dir = ''2021'', entry_file = ''z.jpg''\<rparr>,
            \<lparr>entry_dir = ''2019'', entry_file = ''a.jpg''\<rparr>]
      else [])"

text \<open>A configuration whose only input suffix is the empty string, and a storage that
  has that file.\<close>

definition empty_suffix_storage :: storage where
  "empty_suffix_storage =
     \<lparr>hasEntryFile = (\<lambda>entry suffix. suffix = []),
      readEntryFile = (\<lambda>entry suffix. Inr [255, 216]),
      writeEntryFile = (\<lambda>entry suffix body. None)\<rparr>"

definition empty_suffix_params :: params where
  "empty_suffix_params = example_params\<lparr>imagePreviewSuffixes := [[]]\<rparr>"

section \<open>Properties of the extractor stage\<close>

subsection \<open>The task predicate\<close>

lemma find_truthy:
  "[] \<notin> set suffixes \<Longrightarrow>
     js_not (getEntryFileBySuffixes storage entry suffixes)
       = (\<not> (\<exists>suffix\<in>set suffixes. hasEntryFile storage entry suffix))"
  by (induction suffixes) (auto simp: js_not_def getEntryFileBySuffixes_def)

lemma test_tripped: "currentErrors s > 5 \<Longrightarrow> \<not> test storage p s entry"
  by (simp add: test_def ERROR_THRESHOLD_def)

lemma js_not_first_existing:
  "js_not (getEntryFileBySuffixes storage entry suffixes) =
     (\<not> (\<exists>i<length suffixes.
            hasEntryFile storage entry (suffixes ! i) \<and> suffixes ! i \<noteq> []
          \<and> (\<forall>j<i. \<not> hasEntryFile storage entry (suffixes ! j))))"
proof (cases "getEntryFileBySuffixes storage entry suffixes")
  case None
  then have "\<forall>x\<in>set suffixes. \<not> hasEntryFile storage entry x"
    by (simp add: getEntryFileBySuffixes_def find_None_iff)
  with None show ?thesis
    by (auto simp: js_not_def)
next
  case (Some x)
  then obtain i where i: "i < length suffixes" "hasEntryFile storage entry (suffixes ! i)"
    "x = suffixes ! i" "\<forall>j<i. \<not> hasEntryFile storage entry (suffixes ! j)"
    by (auto simp: getEntryFileBySuffixes_def find_Some_iff)
  have "k = i" if k: "k < length suffixes" "hasEntryFile storage entry (suffixes ! k)"
    "\<forall>j<k. \<not> hasEntryFile storage entry (suffixes ! j)" for k
  proof (rule ccontr)
    assume "k \<noteq> i"
    then consider "k < i" | "i < k" by linarith
    then show False
    proof cases
      case 1
      with i(4) k(2) show False by blast
    next
      case 2
      with k(3) i(2) show False by blast
    qed
  qed
  then have uniq: "\<And>k. k < length suffixes \<Longrightarrow> hasEntryFile storage entry (suffixes ! k)
    \<Longrightarrow> \<forall>j<k. \<not> hasEntryFile storage entry (suffixes ! j) \<Longrightarrow> k = i" .
  have "(\<exists>k<length suffixes.
            hasEntryFile storage entry (suffixes ! k) \<and> suffixes ! k \<noteq> []
          \<and> (\<forall>j<k. \<not> hasEntryFile storage entry (suffixes ! j))) \<longleftrightarrow> x \<noteq> []"
  proof
    assume "\<exists>k<length suffixes.
            hasEntryFile storage entry (suffixes ! k) \<and> suffixes ! k \<noteq> []
          \<and> (\<forall>j<k. \<not> hasEntryFile storage entry (suffixes ! j))"
    then obtain k where k: "k < length suffixes" "hasEntryFile storage entry (suffixes ! k)"
      "suffixes ! k \<noteq> []" "\<forall>j<k. \<not> hasEntryFile storage entry (suffixes ! j)"
      by blast
    from uniq [OF k(1) k(2) k(4)] k(3) i(3) show "x \<noteq> []" by simp
  next
    assume "x \<noteq> []"
    with i show "\<exists>k<length suffixes.
            hasEntryFile storage entry (suffixes ! k) \<and> suffixes ! k \<noteq> []
          \<and> (\<forall>j<k. \<not> hasEntryFile storage entry (suffixes ! j))"
      by (intro exI [of _ i]) simp
  qed
  with Some show ?thesis
    by (simp add: js_not_def)
qed

text \<open>
  C1, as stated, fails: the source tests the suffix that \<open>find\<close> returned with \<open>!\<close>,
  and the empty string is falsy. With the empty string as the configured input suffix
  and that file present, every condition of the claim holds and the predicate still
  returns false.
\<close>

theorem test_rejects_existing_empty_suffix:
  "currentErrors initial \<le> 5
   \<and> [] \<in> set (imagePreviewSuffixes empty_suffix_params)
   \<and> hasEntryFile empty_suffix_storage example_entry []
   \<and> \<not> hasEntryFile empty_suffix_storage example_entry (entrySuffix empty_suffix_params)
   \<and> type example_entry = ''image''
   \<and> \<not> test empty_suffix_storage empty_suffix_params initial example_entry"
  by (simp add: test_def js_not_def getEntryFileBySuffixes_def ERROR_THRESHOLD_def
      initial_def empty_suffix_storage_def empty_suffix_params_def example_params_def
      example_entry_def)

text \<open>
  C1, amended. The predicate \<open>test\<close> returns true if and only if the error count is at
  most 5, the first configured input suffix (in the configured order) that exists for
  the entry is not the empty string, the output suffix does not exist yet, and the type
  of the entry is \<open>image\<close> or \<open>rawImage\<close> (the string the code has for the raw-image
  classifier). When no configured input suffix is the empty string, the second
  condition is that at least one configured input suffix exists for the entry. Above
  the threshold the predicate returns false for every entry.
\<close>

theorem test_iff_eligible:
  "(test storage p s entry \<longleftrightarrow>
      currentErrors s \<le> 5
    \<and> (\<exists>i<length (imagePreviewSuffixes p).
          hasEntryFile storage entry (imagePreviewSuffixes p ! i)
        \<and> imagePreviewSuffixes p ! i \<noteq> []
        \<and> (\<forall>j<i. \<not> hasEntryFile storage entry (imagePreviewSuffixes p ! j)))
    \<and> \<not> hasEntryFile storage entry (entrySuffix p)
    \<and> (type entry = ''image'' \<or> type entry = ''rawImage''))
   \<and> ([] \<notin> set (imagePreviewSuffixes p) \<longrightarrow>
        (test storage p s entry \<longleftrightarrow>
           currentErrors s \<le> 5
         \<and> (\<exists>suffix\<in>set (imagePreviewSuffixes p). hasEntryFile storage entry suffix)
         \<and> \<not> hasEntryFile storage entry (entrySuffix p)
         \<and> (type entry = ''image'' \<or> type entry = ''rawImage'')))
   \<and> (currentErrors s > 5 \<longrightarrow> (\<forall>e. \<not> test storage p s e))"
proof -
  define first_existing where "first_existing \<longleftrightarrow>
    (\<exists>i<length (imagePreviewSuffixes p).
        hasEntryFile storage entry (imagePreviewSuffixes p ! i)
      \<and> imagePreviewSuffixes p ! i \<noteq> []
      \<and> (\<forall>j<i. \<not> hasEntryFile storage entry (imagePreviewSuffixes p ! j)))"
  have found: "js_not (getEntryFileBySuffixes storage entry (imagePreviewSuffixes p))
                 = (\<not> first_existing)"
    unfolding first_existing_def by (rule js_not_first_existing)
  have "test storage p s entry \<longleftrightarrow>
      currentErrors s \<le> 5 \<and> first_existing
    \<and> \<not> hasEntryFile storage entry (entrySuffix p)
    \<and> (type entry = ''image'' \<or> type entry = ''rawImage'')"
    by (auto simp: test_def found ERROR_THRESHOLD_def)
  then have a: "test storage p s entry \<longleftrightarrow>
      currentErrors s \<le> 5
    \<and> (\<exists>i<length (imagePreviewSuffixes p).
          hasEntryFile storage entry (imagePreviewSuffixes p ! i)
        \<and> imagePreviewSuffixes p ! i \<noteq> []
        \<and> (\<forall>j<i. \<not> hasEntryFile storage entry (imagePreviewSuffixes p ! j)))
    \<and> \<not> hasEntryFile storage entry (entrySuffix p)
    \<and> (type entry = ''image'' \<or> type entry = ''rawImage'')"
    unfolding first_existing_def .
  have b: "[] \<notin> set (imagePreviewSuffixes p) \<longrightarrow>
        (test storage p s entry \<longleftrightarrow>
           currentErrors s \<le> 5
         \<and> (\<exists>suffix\<in>set (imagePreviewSuffixes p). hasEntryFile storage entry suffix)
         \<and> \<not> hasEntryFile storage entry (entrySuffix p)
         \<and> (type entry = ''image'' \<or> type entry = ''rawImage''))"
  proof
    assume "[] \<notin> set (imagePreviewSuffixes p)"
    from find_truthy [OF this, of storage entry]
    show "test storage p s entry \<longleftrightarrow>
           currentErrors s \<le> 5
         \<and> (\<exists>suffix\<in>set (imagePreviewSuffixes p). hasEntryFile storage entry suffix)
         \<and> \<not> hasEntryFile storage entry (entrySuffix p)
         \<and> (type entry = ''image'' \<or> type entry = ''rawImage'')"
      by (auto simp: test_def ERROR_THRESHOLD_def)
  qed
  have c: "currentErrors s > 5 \<longrightarrow> (\<forall>e. \<not> test storage p s e)"
    by (simp add: test_tripped)
  show ?thesis
    apply (rule conjI)
     apply (rule a)
    apply (rule conjI)
     apply (rule b)
    apply (rule c)
    done
qed

theorem test_iff_eligible_witness:
  "test example_storage example_params initial example_entry
   \<and> \<not> test example_storage example_params (initial\<lparr>currentErrors := 6\<rparr>) example_entry
   \<and> \<not> test example_storage example_params initial (example_entry\<lparr>type := ''video''\<rparr>)"
proof -
  have h: "[] \<notin> set (imagePreviewSuffixes example_params)"
    by (simp add: example_params_def)
  show ?thesis
    using test_iff_eligible [of example_storage example_params initial example_entry,
        THEN conjunct2, THEN conjunct1, THEN mp, OF h]
      test_iff_eligible [of example_storage example_params "initial\<lparr>currentErrors := 6\<rparr>"
        example_entry, THEN conjunct2, THEN conjunct1, THEN mp, OF h]
      test_iff_eligible [of example_storage example_params initial
        "example_entry\<lparr>type := ''video''\<rparr>", THEN conjunct2, THEN conjunct1, THEN mp, OF h]
    by (simp add: example_storage_def example_params_def example_entry_def initial_def)
qed

subsection \<open>The error counter\<close>

lemma currentErrors_log [simp]: "currentErrors (log l m s) = currentErrors s"
  by (simp add: log_def)

lemma currentErrors_addError [simp]: "currentErrors (addError p s) = currentErrors s + 1"
  by (simp add: addError_def Let_def)

lemma currentErrors_recordSuccess:
  "currentErrors (recordSuccess s) =
     (if currentErrors s > 0 then currentErrors s - 1 else currentErrors s)"
  by (simp add: recordSuccess_def)

lemma logged_addError:
  "logged (addError p s) =
     logged s @ (if currentErrors s \<ge> 5 then [(WARN, TooManyErrors (name p))] else [])"
  by (simp add: addError_def Let_def log_def ERROR_THRESHOLD_def)

lemma addError_funpow_initial:
  "currentErrors ((addError p ^^ n) initial) = int n
   \<and> logged ((addError p ^^ n) initial) = replicate (n - 5) (WARN, TooManyErrors (name p))"
proof (induction n)
  case 0
  show ?case by (simp add: initial_def)
next
  case (Suc n)
  show ?case
  proof (cases "5 \<le> n")
    case True
    then have "Suc n - 5 = Suc (n - 5)" by simp
    with Suc True show ?thesis
      by (simp add: logged_addError replicate_append_same)
  next
    case False
    with Suc show ?thesis by (simp add: logged_addError)
  qed
qed

text \<open>
  C2, as stated, fails: the warning is not emitted once only. After seven consecutive
  failures from a fresh counter the log holds two warnings, one from the sixth failure
  (the crossing) and one more from the seventh.
\<close>

theorem addError_warns_again:
  "logged ((addError example_params ^^ 6) initial) = [(WARN, TooManyErrors ''object detection'')]
   \<and> logged ((addError example_params ^^ 7) initial) =
       [(WARN, TooManyErrors ''object detection''), (WARN, TooManyErrors ''object detection'')]"
  using addError_funpow_initial [where p = example_params and n = 6]
    addError_funpow_initial [where p = example_params and n = 7]
  by (simp add: example_params_def eval_nat_numeral)

text \<open>
  C2, amended. \<open>addError\<close> increments the counter and emits the "too many errors"
  warning on every call that leaves the counter above the threshold: \<open>n\<close> consecutive
  failures from a fresh counter emit \<open>n - 5\<close> warnings (none for the first five), so
  the sixth failure warns and so does each later one.
\<close>

theorem addError_warns_above_threshold:
  "logged (addError p s) =
     logged s @ (if currentErrors s + 1 > 5 then [(WARN, TooManyErrors (name p))] else [])
   \<and> currentErrors (addError p s) = currentErrors s + 1
   \<and> logged ((addError p ^^ n) initial) = replicate (n - 5) (WARN, TooManyErrors (name p))"
  using addError_funpow_initial [where p = p and n = n] by (simp add: logged_addError)

theorem addError_warns_above_threshold_witness:
  "logged ((addError example_params ^^ 5) initial) = []
   \<and> logged ((addError example_params ^^ 6) initial) = [(WARN, TooManyErrors ''object detection'')]"
  using addError_warns_above_threshold [of example_params initial 5]
    addError_warns_above_threshold [of example_params initial 6]
  by (simp add: example_params_def)

lemma run_ops_lower_bound:
  "currentErrors s - int (length (filter (\<lambda>op. op = Success) ops))
     \<le> currentErrors (run_ops p ops s)"
proof (induction ops arbitrary: s)
  case Nil
  show ?case by simp
next
  case (Cons op ops)
  show ?case
    using Cons.IH [of "apply_op p op s"]
    by (cases op) (simp_all add: currentErrors_recordSuccess split: if_splits)
qed

text \<open>
  C3, as stated, fails: there is no tripped flag, the predicate reads the live counter.
  After six failures the counter is above the threshold; one success recorded afterwards
  (a task that was in flight) brings it back to 5, and the predicate accepts an eligible
  entry again.
\<close>

theorem tripped_counter_recovers:
  "5 < currentErrors
         (run_ops example_params [Failure, Failure, Failure, Failure, Failure, Failure] initial)
   \<and> test example_storage example_params
        (run_ops example_params [Success]
           (run_ops example_params [Failure, Failure, Failure, Failure, Failure, Failure]
              initial))
        example_entry"
  by (simp add: test_def js_not_def getEntryFileBySuffixes_def ERROR_THRESHOLD_def
      currentErrors_recordSuccess initial_def example_params_def example_storage_def
      example_entry_def)

text \<open>
  C3, amended. Once the count exceeds 5 the predicate rejects every entry for as long
  as the count stays above 5: after any further operations of which fewer than
  \<open>count - 5\<close> are successes, and in particular after any number of further failures.
\<close>

theorem tripped_while_above_threshold:
  assumes "5 < currentErrors s"
  shows "(int (length (filter (\<lambda>op. op = Success) ops)) < currentErrors s - 5
            \<longrightarrow> \<not> test storage p (run_ops p ops s) entry)
       \<and> ((\<forall>op\<in>set ops. op = Failure) \<longrightarrow> \<not> test storage p (run_ops p ops s) entry)"
proof -
  have "filter (\<lambda>op. op = Success) ops = []" if "\<forall>op\<in>set ops. op = Failure"
    using that by (auto simp: filter_empty_conv)
  with run_ops_lower_bound [of s ops p] assms show ?thesis
    by (auto intro!: test_tripped)
qed

theorem tripped_while_above_threshold_witness:
  "5 < currentErrors (initial\<lparr>currentErrors := 7\<rparr>)
   \<and> \<not> test example_storage example_params
         (run_ops example_params [Success, Failure] (initial\<lparr>currentErrors := 7\<rparr>))
         example_entry
   \<and> \<not> test example_storage example_params
         (run_ops example_params [Failure, Failure] (initial\<lparr>currentErrors := 7\<rparr>))
         example_entry"
proof -
  have a: "5 < currentErrors (initial\<lparr>currentErrors := 7\<rparr>)"
    by simp
  show ?thesis
    using a tripped_while_above_threshold [OF a, of "[Success, Failure]"]
      tripped_while_above_threshold [OF a, of "[Failure, Failure]"]
    by simp
qed

text \<open>
  C5. From a fresh counter, six failures followed by six successes bring the counter
  back to 0, and the predicate, which rejected the entry after the six failures,
  accepts an otherwise eligible entry again.
\<close>

theorem error_budget_recovers:
  assumes "[] \<notin> set (imagePreviewSuffixes p)"
    and "\<exists>suffix\<in>set (imagePreviewSuffixes p). hasEntryFile storage entry suffix"
    and "\<not> hasEntryFile storage entry (entrySuffix p)"
    and "type entry = ''image'' \<or> type entry = ''rawImage''"
  shows "currentErrors (run_ops p [Failure, Failure, Failure, Failure, Failure, Failure] initial) = 6
    \<and> \<not> test storage p
          (run_ops p [Failure, Failure, Failure, Failure, Failure, Failure] initial) entry
    \<and> currentErrors
         (run_ops p [Failure, Failure, Failure, Failure, Failure, Failure,
                     Success, Success, Success, Success, Success, Success] initial) = 0
    \<and> test storage p
         (run_ops p [Failure, Failure, Failure, Failure, Failure, Failure,
                     Success, Success, Success, Success, Success, Success] initial) entry"
  using assms find_truthy [OF assms(1), of storage entry]
  by (simp add: test_def ERROR_THRESHOLD_def currentErrors_recordSuccess initial_def)

theorem error_budget_recovers_witness:
  "currentErrors
     (run_ops example_params [Failure, Failure, Failure, Failure, Failure, Failure,
                 Success, Success, Success, Success, Success, Success] initial) = 0
   \<and> test example_storage example_params
       (run_ops example_params [Failure, Failure, Failure, Failure, Failure, Failure,
                   Success, Success, Success, Success, Success, Success] initial) example_entry"
proof -
  have a: "[] \<notin> set (imagePreviewSuffixes example_params)"
    by (simp add: example_params_def)
  have b: "\<exists>suffix\<in>set (imagePreviewSuffixes example_params).
             hasEntryFile example_storage example_entry suffix"
    by (simp add: example_params_def example_storage_def)
  have c: "\<not> hasEntryFile example_storage example_entry (entrySuffix example_params)"
    by (simp add: example_params_def example_storage_def)
  have d: "type example_entry = ''image'' \<or> type example_entry = ''rawImage''"
    by (simp add: example_entry_def)
  show ?thesis using error_budget_recovers [OF a b c d] by simp
qed

subsection \<open>The enrichment task\<close>

text \<open>
  On the counter, a run of the task is one of the operations of \<open>budget_op\<close> or
  nothing: a failure when the remote call failed, a success when the body was written.
\<close>

lemma task_counter_as_op:
  "currentErrors (snd (task storage request p entry s)) =
     (if remote_call_failed storage request p entry then currentErrors (apply_op p Failure s)
      else if body_written storage request p entry then currentErrors (apply_op p Success s)
      else currentErrors s)"
  by (auto simp: task_def Let_def remote_call_failed_def body_written_def
      currentErrors_recordSuccess split: sum.splits option.splits)

text \<open>
  C4. The task increments the error counter exactly when the remote call failed (no
  answer, or a status outside \<open>[100, 300)\<close>). When the response body was written under
  the output suffix the counter goes down by one, floored at 0, and it goes down in no
  other case. A failed local read and a failed local write leave it unchanged. The
  counter starts at 0 and never becomes negative.
\<close>

theorem task_error_budget:
  assumes "0 \<le> currentErrors s"
  shows "(currentErrors (snd (task storage request p entry s)) = currentErrors s + 1
            \<longleftrightarrow> remote_call_failed storage request p entry)
    \<and> (body_written storage request p entry
          \<longrightarrow> currentErrors (snd (task storage request p entry s)) = max 0 (currentErrors s - 1))
    \<and> (currentErrors (snd (task storage request p entry s)) < currentErrors s
            \<longleftrightarrow> body_written storage request p entry \<and> 0 < currentErrors s)
    \<and> (read_failed storage p entry \<or> write_failed storage request p entry
          \<longrightarrow> currentErrors (snd (task storage request p entry s)) = currentErrors s)
    \<and> 0 \<le> currentErrors (snd (task storage request p entry s))"
  using assms
  by (auto simp: task_def Let_def remote_call_failed_def body_written_def read_failed_def
      write_failed_def currentErrors_recordSuccess split: sum.splits option.splits)

theorem task_error_budget_witness:
  "0 \<le> currentErrors initial
   \<and> remote_call_failed example_storage (example_request 500) example_params example_entry
   \<and> currentErrors (snd (task example_storage (example_request 500) example_params
                           example_entry initial)) = 1
   \<and> body_written example_storage (example_request 200) example_params example_entry
   \<and> currentErrors (snd (task example_storage (example_request 200) example_params
                           example_entry (initial\<lparr>currentErrors := 3\<rparr>))) = 2"
proof -
  have a: "0 \<le> currentErrors initial"
    by (simp add: initial_def)
  have b: "0 \<le> currentErrors (initial\<lparr>currentErrors := 3\<rparr>)"
    by simp
  have c: "remote_call_failed example_storage (example_request 500) example_params example_entry"
    by (simp add: remote_call_failed_def example_storage_def example_request_def)
  have d: "body_written example_storage (example_request 200) example_params example_entry"
    by (simp add: body_written_def example_storage_def example_request_def)
  show ?thesis
    using a c d
      task_error_budget [OF a, of example_storage "example_request 500" example_params example_entry]
      task_error_budget [OF b, of example_storage "example_request 200" example_params example_entry]
    by (simp add: initial_def)
qed

text \<open>
  C6. Whatever the storage and the remote call answer, the task ends in one of four
  ways (the local read failed, the remote call failed, the local write failed, the
  body was written), and in each it calls its completion callback exactly once and
  with no error.
\<close>

theorem task_calls_back_once:
  "fst (task storage request p entry s) = [None]
   \<and> (read_failed storage p entry \<or> remote_call_failed storage request p entry
      \<or> write_failed storage request p entry \<or> body_written storage request p entry)"
  by (auto simp: task_def Let_def read_failed_def remote_call_failed_def write_failed_def
      body_written_def split: sum.splits option.splits)

theorem task_calls_back_once_witness:
  "fst (task example_storage (example_request 500) example_params example_entry initial) = [None]
   \<and> fst (task example_storage (example_request 200) example_params example_entry initial) = [None]"
  using task_calls_back_once [of example_storage "example_request 500" example_params
      example_entry initial]
    task_calls_back_once [of example_storage "example_request 200" example_params
      example_entry initial]
  by simp

subsection \<open>The feature adapters\<close>

lemma names_feature_isDisabled:
  "names_feature cfg feature \<Longrightarrow> feature \<noteq> [] \<Longrightarrow> isDisabled cfg feature"
  by (auto simp: names_feature_def isDisabled_def split: option.splits disable_setting.splits)

lemma noop_passes_through: "noop entries s = (entries, s)"
  by (induction entries) (simp_all add: noop_def)

text \<open>
  C7. When the configuration names a feature in its \<open>disable\<close> setting, as the single
  string or as a member of the list, the adapter of that feature returns the stage
  \<open>noop\<close>. That stage emits the entries it receives, unchanged, and leaves the state as
  it was: it issues no HTTP request, whatever the entries are.
\<close>

theorem disabled_feature_is_noop:
  "(names_feature cfg ''similarDetection'' \<longrightarrow>
      fst (similarEmbeddings parallel request sizeToImagePreviewSuffix storage cmn cfg) = Inr noop)
   \<and> (names_feature cfg ''objectDetection'' \<longrightarrow>
      fst (objectDetection parallel request sizeToImagePreviewSuffix storage cmn cfg) = Inr noop)
   \<and> (names_feature cfg ''faceDetection'' \<longrightarrow>
      fst (faceDetection parallel request sizeToImagePreviewSuffix storage cmn cfg) = Inr noop)
   \<and> fst (noop entries s) = entries
   \<and> requested (snd (noop entries s)) = requested s
   \<and> snd (noop entries s) = s"
  by (simp add: names_feature_isDisabled similarEmbeddings_def objectDetection_def
      faceDetection_def noop_passes_through)

theorem disabled_feature_is_noop_witness:
  "fst (similarEmbeddings (\<lambda>tsk n. noop) (example_request 200) example_suffix example_storage example_common
          (example_config
             (DisableMany [''faceDetection'', ''similarDetection'', ''objectDetection''])))
     = Inr noop
   \<and> fst (objectDetection (\<lambda>tsk n. noop) (example_request 200) example_suffix example_storage example_common
          (example_config
             (DisableMany [''faceDetection'', ''similarDetection'', ''objectDetection''])))
     = Inr noop
   \<and> fst (faceDetection (\<lambda>tsk n. noop) (example_request 200) example_suffix example_storage example_common
          (example_config
             (DisableMany [''faceDetection'', ''similarDetection'', ''objectDetection''])))
     = Inr noop
   \<and> fst (faceDetection (\<lambda>tsk n. noop) (example_request 200) example_suffix example_storage example_common
          (example_config (DisableOne ''faceDetection''))) = Inr noop
   \<and> noop [example_entry, example_entry\<lparr>type := ''video''\<rparr>] initial
        = ([example_entry, example_entry\<lparr>type := ''video''\<rparr>], initial)"
  using disabled_feature_is_noop
      [of "example_config
             (DisableMany [''faceDetection'', ''similarDetection'', ''objectDetection''])"
        "\<lambda>tsk n. noop" "example_request 200" example_suffix example_storage example_common
        "[example_entry, example_entry\<lparr>type := ''video''\<rparr>]" initial]
    disabled_feature_is_noop
      [of "example_config (DisableOne ''faceDetection'')"
        "\<lambda>tsk n. noop" "example_request 200" example_suffix example_storage example_common "[]" initial]
  by (simp add: names_feature_def config_apiServer_def example_config_def prod_eq_iff)

text \<open>
  C10. \<open>logPublicApiPrivacyHint\<close> returns a stage, the pass-through stage \<open>noop\<close>,
  exactly when the configuration has an \<open>extractor.apiServer\<close> block. Without the
  block the destructuring throws a \<open>TypeError\<close>: no stage is returned and nothing is
  logged.
\<close>

theorem logPublicApiPrivacyHint_needs_block:
  "(config_apiServer cfg \<noteq> None \<longrightarrow> fst (logPublicApiPrivacyHint cfg) = Inr noop)
   \<and> (config_apiServer cfg = None \<longrightarrow> logPublicApiPrivacyHint cfg = (Inl TypeError, []))
   \<and> ((\<exists>stage. fst (logPublicApiPrivacyHint cfg) = Inr stage) \<longleftrightarrow> config_apiServer cfg \<noteq> None)"
  by (auto simp: logPublicApiPrivacyHint_def split: option.splits)

theorem logPublicApiPrivacyHint_needs_block_witness:
  "fst (logPublicApiPrivacyHint (example_config DisableAbsent)) = Inr noop
   \<and> logPublicApiPrivacyHint example_config_without_block = (Inl TypeError, [])
   \<and> logPublicApiPrivacyHint None = (Inl TypeError, [])"
  using logPublicApiPrivacyHint_needs_block [of "example_config DisableAbsent"]
    logPublicApiPrivacyHint_needs_block [of example_config_without_block]
    logPublicApiPrivacyHint_needs_block [of None]
  by (simp add: config_apiServer_def example_config_def example_config_without_block_def)

section \<open>Properties of the index writer\<close>

subsection \<open>The comparator and the sort\<close>

lemma byDirDescFileAsc_le_iff: "byDirDescFileAsc a b \<le> 0 \<longleftrightarrow> dir_desc_file_asc a b"
  by (auto simp: byDirDescFileAsc_def dir_desc_file_asc_def)

lemma dir_desc_file_asc_total: "\<not> dir_desc_file_asc a b \<Longrightarrow> dir_desc_file_asc b a"
  by (auto simp: dir_desc_file_asc_def)

lemma dir_desc_file_asc_trans:
  "dir_desc_file_asc a b \<Longrightarrow> dir_desc_file_asc b c \<Longrightarrow> dir_desc_file_asc a c"
  by (auto simp: dir_desc_file_asc_def)

lemma mset_insert_by: "mset (insert_by cmp x xs) = add_mset x (mset xs)"
  by (induction xs) auto

lemma set_insert_by: "set (insert_by cmp x xs) = insert x (set xs)"
  by (induction xs) auto

lemma sorted_insert_by:
  "sorted_wrt dir_desc_file_asc xs \<Longrightarrow>
     sorted_wrt dir_desc_file_asc (insert_by byDirDescFileAsc x xs)"
proof (induction xs)
  case Nil
  show ?case by simp
next
  case (Cons y ys)
  show ?case
  proof (cases "dir_desc_file_asc x y")
    case True
    with Cons.prems show ?thesis
      by (auto simp: byDirDescFileAsc_le_iff intro: dir_desc_file_asc_trans)
  next
    case False
    with Cons show ?thesis
      by (auto simp: byDirDescFileAsc_le_iff set_insert_by dest: dir_desc_file_asc_total)
  qed
qed

lemma mset_js_sort: "mset (js_sort cmp xs) = mset xs"
  by (induction xs) (simp_all add: js_sort_def mset_insert_by)

lemma sorted_js_sort: "sorted_wrt dir_desc_file_asc (js_sort byDirDescFileAsc xs)"
  by (induction xs) (simp_all add: js_sort_def sorted_insert_by)

subsection \<open>writeIndex\<close>

lemma heap_after_writeIndex:
  "heap_after (writeIndex pf h directory filename entries opts)
     = h(entries := js_sort byDirDescFileAsc (h entries))"
  by (simp add: writeIndex_def array_sort_def Let_def split: option.splits)

lemma returned_writeIndex:
  "returned (writeIndex pf h directory filename entries opts) =
     (let index = \<lparr>index_type = ''home-gallery/fileindex@1.0'', created = now pf,
                    base = resolve pf directory, data = entries\<rparr>
      in if dryRun opts then Inr index
         else (case writeJsonGzip pf filename index (js_sort byDirDescFileAsc (h entries)) of
                 None \<Rightarrow> Inr index
               | Some err \<Rightarrow> Inl err))"
  by (simp add: writeIndex_def array_sort_def Let_def split: option.splits)

lemma files_written_writeIndex:
  "files_written (writeIndex pf h directory filename entries opts) =
     (let index = \<lparr>index_type = ''home-gallery/fileindex@1.0'', created = now pf,
                    base = resolve pf directory, data = entries\<rparr>
      in if dryRun opts then []
         else (case writeJsonGzip pf filename index (js_sort byDirDescFileAsc (h entries)) of
                 None \<Rightarrow> [(filename, index, js_sort byDirDescFileAsc (h entries))]
               | Some err \<Rightarrow> []))"
  by (simp add: writeIndex_def array_sort_def Let_def split: option.splits)

text \<open>
  C8. \<open>writeIndex\<close> builds one index: its type is the format string
  \<open>home-gallery/fileindex@1.0\<close>, its base is the resolved directory, and its data array
  holds the entries it was given, sorted by directory descending and then file
  ascending. With \<open>dryRun\<close> set it returns this index and writes no file. Otherwise it
  hands the index to \<open>writeJsonGzip\<close> for the target file, and when that succeeds, that
  one file is written and the same index is returned; when it fails, the promise is
  rejected with its error.
\<close>

theorem writeIndex_structure:
  "\<exists>index.
      index_type index = ''home-gallery/fileindex@1.0''
    \<and> base index = resolve pf directory
    \<and> sorted_wrt dir_desc_file_asc
         (heap_after (writeIndex pf h directory filename entries opts) (data index))
    \<and> mset (heap_after (writeIndex pf h directory filename entries opts) (data index))
         = mset (h entries)
    \<and> (dryRun opts \<longrightarrow>
          returned (writeIndex pf h directory filename entries opts) = Inr index
        \<and> files_written (writeIndex pf h directory filename entries opts) = [])
    \<and> (\<not> dryRun opts \<longrightarrow>
          (case writeJsonGzip pf filename index
                  (heap_after (writeIndex pf h directory filename entries opts) (data index)) of
             None \<Rightarrow>
               returned (writeIndex pf h directory filename entries opts) = Inr index
             \<and> files_written (writeIndex pf h directory filename entries opts) =
                 [(filename, index,
                   heap_after (writeIndex pf h directory filename entries opts) (data index))]
           | Some err \<Rightarrow>
               returned (writeIndex pf h directory filename entries opts) = Inl err
             \<and> files_written (writeIndex pf h directory filename entries opts) = []))"
proof -
  let ?index = "\<lparr>index_type = ''home-gallery/fileindex@1.0'', created = now pf,
                 base = resolve pf directory, data = entries\<rparr>"
  show ?thesis
    by (rule exI [of _ ?index])
      (simp add: heap_after_writeIndex returned_writeIndex files_written_writeIndex
        sorted_js_sort mset_js_sort split: option.splits)
qed

theorem writeIndex_structure_witness:
  "(\<exists>index.
       returned (writeIndex example_platform example_heap ''pictures'' ''pictures.idx'' 0
                   \<lparr>dryRun = True\<rparr>) = Inr index
     \<and> index_type index = ''home-gallery/fileindex@1.0''
     \<and> base index = ''/data/pictures'')
   \<and> files_written (writeIndex example_platform example_heap ''pictures'' ''pictures.idx'' 0
                      \<lparr>dryRun = True\<rparr>) = []
   \<and> map fst (files_written (writeIndex example_platform example_heap ''pictures''
                      ''pictures.idx'' 0 \<lparr>dryRun = False\<rparr>)) = [''pictures.idx'']"
  using writeIndex_structure
      [of example_platform "''pictures''" example_heap "''pictures.idx''" 0
        "\<lparr>dryRun = True\<rparr>"]
    writeIndex_structure
      [of example_platform "''pictures''" example_heap "''pictures.idx''" 0
        "\<lparr>dryRun = False\<rparr>"]
  by (auto simp: example_platform_def)

text \<open>
  C9. \<open>writeIndex\<close> sorts the array of its caller in place. After every call, a dry
  run and a failed write included, the array the argument refers to holds the same
  entries in directory-descending, file-ascending order, and no other array has
  changed. The data field of the returned index is the reference it was given, not a
  copy.
\<close>

theorem writeIndex_sorts_in_place:
  "sorted_wrt dir_desc_file_asc
     (heap_after (writeIndex pf h directory filename entries opts) entries)
   \<and> mset (heap_after (writeIndex pf h directory filename entries opts) entries)
       = mset (h entries)
   \<and> (\<forall>r. r \<noteq> entries \<longrightarrow>
         heap_after (writeIndex pf h directory filename entries opts) r = h r)
   \<and> (\<forall>index. returned (writeIndex pf h directory filename entries opts) = Inr index
         \<longrightarrow> data index = entries)
   \<and> (dryRun opts \<longrightarrow>
         (\<exists>index. returned (writeIndex pf h directory filename entries opts) = Inr index))"
  by (auto simp: heap_after_writeIndex returned_writeIndex Let_def sorted_js_sort
      mset_js_sort split: option.splits if_splits)

theorem writeIndex_sorts_in_place_witness:
  "heap_after (writeIndex example_platform example_heap ''pictures'' ''pictures.idx'' 0
                 \<lparr>dryRun = True\<rparr>) 0
     = [\<lparr>entry_dir = ''2021'', entry_file = ''z.jpg''\<rparr>,
        \<lparr>entry_dir = ''2019'', entry_file = ''a.jpg''\<rparr>,
        \<lparr>entry_dir = ''2019'', entry_file = ''b.jpg''\<rparr>]
   \<and> heap_after (writeIndex example_platform example_heap ''pictures'' ''pictures.idx'' 0
                 \<lparr>dryRun = True\<rparr>) 1 = example_heap 1
   \<and> (\<exists>index. returned (writeIndex example_platform example_heap ''pictures''
                   ''pictures.idx'' 0 \<lparr>dryRun = True\<rparr>) = Inr index \<and> data index = 0)"
  using writeIndex_sorts_in_place
      [of example_platform example_heap "''pictures''" "''pictures.idx''" 0
        "\<lparr>dryRun = True\<rparr>"]
  by (auto simp: heap_after_writeIndex js_sort_def byDirDescFileAsc_def example_heap_def)

end
